theory Spec2Isabelle
  imports Complex_Main "HOL-Library.AList"
begin

section \<open>The item store of \<open>3_more_routing.py\<close>\<close>

text \<open>
  The program is one module: a dictionary \<open>items\<close> from integer ids to \<open>Item\<close> objects
  and six route handlers that read or mutate it. Each handler is modelled as a function
  that takes the dictionary and the request's arguments and returns the dictionary after
  the call together with what the handler returns or raises.
\<close>

subsection \<open>Values\<close>

text \<open>\<open>class Category(Enum)\<close>: two members, compared by identity.\<close>

datatype Category = TOOLS | CONSUMABLES

text \<open>
  A Python \<open>float\<close>. The handlers only store prices and compare them with \<open>==\<close>, so a
  float is its exact value (every finite double is a rational; \<open>0.0\<close> and \<open>-0.0\<close> are the
  same value and compare equal), or one of the three special values. \<open>float_eq\<close> is
  \<open>==\<close>: a NaN is equal to nothing, itself included.
\<close>

datatype pyfloat = Finite rat | PosInf | NegInf | NaN

definition float_eq :: "pyfloat \<Rightarrow> pyfloat \<Rightarrow> bool" where
  "float_eq a b = (a \<noteq> NaN \<and> b \<noteq> NaN \<and> a = b)"

text \<open>
  \<open>class Item(BaseModel)\<close>. The field \<open>id\<close> is \<open>id'\<close> here; the handlers' parameters
  \<open>name\<close>, \<open>price\<close>, \<open>count\<close> and \<open>category\<close> are \<open>name'\<close>, \<open>price'\<close>, \<open>count'\<close> and
  \<open>category'\<close>, the fields keeping the plain names.
\<close>

record Item =
  name :: string
  price :: pyfloat
  count :: int
  id' :: int
  category :: Category

text \<open>What a handler can raise: the framework's \<open>HTTPException(status_code, detail)\<close>,
  or the \<open>KeyError\<close> of a dictionary lookup or \<open>pop\<close> at a missing key.\<close>

datatype error = HTTPException int string | KeyError int

subsection \<open>The dictionary\<close>

text \<open>
  A Python \<open>dict\<close> keeps its keys in insertion order: assigning to a key that is present
  replaces the value in place, assigning to a new key appends, and \<open>values()\<close> follows
  that order. That is an association list under \<open>AList.update\<close> and \<open>AList.delete\<close>.
\<close>

type_synonym items = "(int \<times> Item) list"

definition keys :: "items \<Rightarrow> int list" where
  "keys d = map fst d"

definition contains :: "items \<Rightarrow> int \<Rightarrow> bool" where
  "contains d k = (k \<in> set (keys d))"

definition getitem :: "items \<Rightarrow> int \<Rightarrow> error + Item" where
  "getitem d k = (case map_of d k of None \<Rightarrow> Inl (KeyError k) | Some v \<Rightarrow> Inr v)"

definition setitem :: "items \<Rightarrow> int \<Rightarrow> Item \<Rightarrow> items" where
  "setitem d k v = AList.update k v d"

definition pop :: "items \<Rightarrow> int \<Rightarrow> error + (Item \<times> items)" where
  "pop d k = (case map_of d k of None \<Rightarrow> Inl (KeyError k)
              | Some v \<Rightarrow> Inr (v, AList.delete k d))"

definition values_of :: "items \<Rightarrow> Item list" where
  "values_of d = map snd d"

text \<open>
  The module's initial dictionary. The price literals \<open>9.99\<close>, \<open>5.99\<close> and \<open>1.99\<close>
  denote the doubles nearest to them, written here exactly
  (\<open>562949953421312 = 2 ^ 49\<close>, \<open>4503599627370496 = 2 ^ 52\<close>).
\<close>

definition price_9_99 :: pyfloat where
  "price_9_99 = Finite (5623870034678907 / 562949953421312)"

definition price_5_99 :: pyfloat where
  "price_5_99 = Finite (3372070220993659 / 562949953421312)"

definition price_1_99 :: pyfloat where
  "price_1_99 = Finite (8962163258467287 / 4503599627370496)"

definition hammer :: Item where
  "hammer = \<lparr>name = ''Hammer'', price = price_9_99, count = 20, id' = 0, category = TOOLS\<rparr>"

definition pliers :: Item where
  "pliers = \<lparr>name = ''Pliers'', price = price_5_99, count = 20, id' = 1, category = TOOLS\<rparr>"

definition nails :: Item where
  "nails = \<lparr>name = ''Nails'', price = price_1_99, count = 100, id' = 2,
             category = CONSUMABLES\<rparr>"

definition initial_items :: items where
  "initial_items = [(0, hammer), (1, pliers), (2, nails)]"

subsection \<open>Formatting an integer into a message\<close>

text \<open>The f-strings of the error messages render \<open>item_id\<close> in decimal, as \<open>str\<close> does.\<close>

fun str_nat :: "nat \<Rightarrow> string" where
  "str_nat n = (if n < 10 then [''0123456789'' ! n]
                else str_nat (n div 10) @ [''0123456789'' ! (n mod 10)])"

declare str_nat.simps [simp del]

definition str_int :: "int \<Rightarrow> string" where
  "str_int i = (if i < 0 then ''-'' @ str_nat (nat (- i)) else str_nat (nat i))"

subsection \<open>The handlers\<close>

text \<open>\<open>GET /\<close>: \<open>return {"items": items}\<close>.\<close>

definition index :: "items \<Rightarrow> items \<times> (string \<times> items) list" where
  "index items = (items, [(''items'', items)])"

text \<open>
  \<open>GET /items/{item_id}\<close>. The \<open>if\<close> builds an exception and drops it (there is no
  \<open>raise\<close>), so its value is bound and never used; the lookup \<open>items[item_id]\<close> follows
  in every case.
\<close>

definition query_item_by_id :: "items \<Rightarrow> int \<Rightarrow> items \<times> (error + Item)" where
  "query_item_by_id items item_id =
     (let dropped = (if \<not> contains items item_id
                     then Some (HTTPException 404
                            (''Item with '' @ str_int item_id @ '' does not found.''))
                     else None)
      in (items, getitem items item_id))"

text \<open>
  \<open>Selection = dict[str, str | int | float | Category | None]\<close>, and the handler's
  result type \<open>dict[str, Selection | list[Item]]\<close>.
\<close>

datatype pyval = VStr string | VFloat pyfloat | VInt int | VCat Category | VNone

type_synonym Selection = "(string \<times> pyval) list"

datatype selection_or_list = Sel Selection | Lst "Item list"

definition opt_val :: "('a \<Rightarrow> pyval) \<Rightarrow> 'a option \<Rightarrow> pyval" where
  "opt_val f x = (case x of None \<Rightarrow> VNone | Some v \<Rightarrow> f v)"

text \<open>
  The inner \<open>check_item\<close>, with the query arguments of the enclosing call as its first
  four arguments. Each line of the tuple given to \<open>all\<close> is one conjunct:
  \<open>item.name == name\<close>, \<open>item.price == price\<close>, \<open>item.count != count\<close>,
  \<open>item.category is category\<close>.
\<close>

definition check_item ::
  "string option \<Rightarrow> pyfloat option \<Rightarrow> int option \<Rightarrow> Category option \<Rightarrow> Item \<Rightarrow> bool" where
  "check_item name' price' count' category' item =
     ((case name' of None \<Rightarrow> True | Some n \<Rightarrow> name item = n) \<and>
      (case price' of None \<Rightarrow> True | Some p \<Rightarrow> float_eq (price item) p) \<and>
      (case count' of None \<Rightarrow> True | Some c \<Rightarrow> count item \<noteq> c) \<and>
      (case category' of None \<Rightarrow> True | Some g \<Rightarrow> category item = g))"

text \<open>\<open>GET /items/\<close>.\<close>

definition query_item_by_parameters ::
  "items \<Rightarrow> string option \<Rightarrow> pyfloat option \<Rightarrow> int option \<Rightarrow> Category option
     \<Rightarrow> items \<times> (string \<times> selection_or_list) list" where
  "query_item_by_parameters items name' price' count' category' =
     (let selection = filter (check_item name' price' count' category') (values_of items)
      in (items,
          [(''query'', Sel [(''name'', opt_val VStr name'),
                            (''price'', opt_val VFloat price'),
                            (''count'', opt_val VInt count'),
                            (''category'', opt_val VCat category')]),
           (''selection'', Lst selection)]))"

text \<open>\<open>POST /\<close>. Again the exception of the \<open>if\<close> is built and dropped.\<close>

definition add_item :: "items \<Rightarrow> Item \<Rightarrow> items \<times> (error + (string \<times> Item) list)" where
  "add_item items item =
     (let dropped = (if contains items (id' item)
                     then Some (HTTPException 400
                            (''Item with '' @ str_int (id' item) @ '' already exist''))
                     else None)
      in (setitem items (id' item) item, Inr [(''added'', item)]))"

text \<open>
  \<open>PUT /update/{item_id}\<close>. The first \<open>if\<close> drops its exception, the second raises.
  \<open>item = items[item_id]\<close> is the stored object itself, so the three assignments
  change the dictionary's entry in place.
\<close>

definition update ::
  "items \<Rightarrow> int \<Rightarrow> string option \<Rightarrow> pyfloat option \<Rightarrow> int option
     \<Rightarrow> items \<times> (error + (string \<times> Item) list)" where
  "update items item_id name' price' count' =
     (let dropped = (if \<not> contains items item_id
                     then Some (HTTPException 404
                            (''Item with '' @ str_int item_id @ '' does not exist.''))
                     else None)
      in if name' = None \<and> price' = None \<and> count' = None
         then (items, Inl (HTTPException 400 ''No parameters provide for update.''))
         else (case getitem items item_id of
                 Inl e \<Rightarrow> (items, Inl e)
               | Inr item \<Rightarrow>
                   (let item1 = (case name' of None \<Rightarrow> item | Some n \<Rightarrow> item\<lparr>name := n\<rparr>);
                        item2 = (case price' of None \<Rightarrow> item1 | Some p \<Rightarrow> item1\<lparr>price := p\<rparr>);
                        item3 = (case count' of None \<Rightarrow> item2 | Some c \<Rightarrow> item2\<lparr>count := c\<rparr>)
                    in (setitem items item_id item3, Inr [(''updated'', item3)]))))"

text \<open>
  The constraints the route declares on its parameters (\<open>Path(ge=0)\<close>,
  \<open>Query(min_length=1, max_length=8)\<close>, \<open>Query(gt=0.0)\<close>, \<open>Query(ge=0)\<close>); the framework
  checks them before it calls \<open>update\<close>.
\<close>

definition float_gt_zero :: "pyfloat \<Rightarrow> bool" where
  "float_gt_zero p = (case p of Finite r \<Rightarrow> 0 < r | PosInf \<Rightarrow> True | _ \<Rightarrow> False)"

definition update_constraints ::
  "int \<Rightarrow> string option \<Rightarrow> pyfloat option \<Rightarrow> int option \<Rightarrow> bool" where
  "update_constraints item_id name' price' count' =
     (0 \<le> item_id \<and>
      (case name' of None \<Rightarrow> True | Some n \<Rightarrow> 1 \<le> length n \<and> length n \<le> 8) \<and>
      (case price' of None \<Rightarrow> True | Some p \<Rightarrow> float_gt_zero p) \<and>
      (case count' of None \<Rightarrow> True | Some c \<Rightarrow> 0 \<le> c))"

text \<open>\<open>DELETE /delete/{item_id}\<close>.\<close>

definition delete_item :: "items \<Rightarrow> int \<Rightarrow> items \<times> (error + (string \<times> Item) list)" where
  "delete_item items item_id =
     (if \<not> contains items item_id
      then (items, Inl (HTTPException 404
                     (''Item with '' @ str_int item_id @ '' does not exist.'')))
      else (case pop items item_id of
              Inl e \<Rightarrow> (items, Inl e)
            | Inr (item, items') \<Rightarrow> (items', Inr [(''delete'', item)])))"

subsection \<open>The invariant of the dictionary\<close>

text \<open>Every key holds an item whose \<open>id\<close> field is that key: \<open>items[k].id == k\<close>.\<close>

definition ids_match_keys :: "items \<Rightarrow> bool" where
  "ids_match_keys d = (\<forall>k \<in> set (keys d). map_option id' (map_of d k) = Some k)"

section \<open>Properties\<close>

subsection \<open>The dictionary operations\<close>

lemma contains_map_of: "contains d k \<longleftrightarrow> map_of d k \<noteq> None"
  by (simp add: contains_def keys_def map_of_eq_None_iff)

lemma getitem_present: "map_of d k = Some v \<Longrightarrow> getitem d k = Inr v"
  by (simp add: getitem_def)

lemma getitem_missing: "\<not> contains d k \<Longrightarrow> getitem d k = Inl (KeyError k)"
  by (simp add: getitem_def contains_map_of)

lemma map_of_setitem: "map_of (setitem d k v) = (map_of d)(k \<mapsto> v)"
  by (simp add: setitem_def update_conv')

lemma keys_setitem:
  "keys (setitem d k v) = (if contains d k then keys d else keys d @ [k])"
  by (simp add: setitem_def keys_def contains_def update_keys)

lemma ids_match_keys_setitem:
  assumes "ids_match_keys d" and "id' v = k"
  shows "ids_match_keys (setitem d k v)"
  using assms by (auto simp: ids_match_keys_def keys_setitem map_of_setitem)

lemma ids_match_keys_delete:
  assumes "ids_match_keys d"
  shows "ids_match_keys (AList.delete k d)"
  using assms by (auto simp: ids_match_keys_def keys_def delete_keys delete_conv')

lemma keys_initial_items: "keys initial_items = [0, 1, 2]"
  by (simp add: keys_def initial_items_def)

subsection \<open>Filtering by parameters\<close>

text \<open>
  Whatever the other arguments, an item that passes \<open>check_item\<close> under a given \<open>count\<close>
  has a different count: the third conjunct compares with \<open>!=\<close>.
\<close>

lemma check_item_count_differs:
  "check_item name' price' (Some c) category' item \<Longrightarrow> count item \<noteq> c"
  by (simp add: check_item_def)

text \<open>
  C1. The claim: the selection holds exactly the stored items that are equal to the query
  in every supplied field. On the initial dictionary, the query \<open>count = 20\<close> selects
  \<open>Nails\<close> alone, whose count is 100, and neither of the two items whose count is 20.
\<close>

theorem query_by_count_selects_unequal:
  "query_item_by_parameters initial_items None None (Some 20) None =
     (initial_items,
      [(''query'', Sel [(''name'', VNone), (''price'', VNone), (''count'', VInt 20),
                        (''category'', VNone)]),
       (''selection'', Lst [nails])]) \<and>
   count hammer = 20 \<and> count pliers = 20 \<and> count nails = 100"
  by (simp add: query_item_by_parameters_def initial_items_def values_of_def check_item_def
      hammer_def pliers_def nails_def opt_val_def)

text \<open>
  A query that gives all four arguments gets each of them back under its own key, as
  the string, the float, the integer and the category it was.
\<close>

lemma query_echo_all_given:
  "map_of (snd (query_item_by_parameters initial_items
                  (Some ''Hammer'') (Some price_9_99) (Some 20) (Some TOOLS))) ''query'' =
     Some (Sel [(''name'', VStr ''Hammer''), (''price'', VFloat price_9_99),
                (''count'', VInt 20), (''category'', VCat TOOLS)])"
  by (simp add: query_item_by_parameters_def opt_val_def)

text \<open>
  C10. \<open>query_item_by_parameters\<close> leaves the dictionary as it found it, and the entry
  \<open>query\<close> of its result holds the four arguments of the call under the keys \<open>name\<close>,
  \<open>price\<close>, \<open>count\<close> and \<open>category\<close>: the given string, float, integer and category
  themselves, and \<open>None\<close> where one was not given.
\<close>

theorem query_item_by_parameters_reads_only:
  "fst (query_item_by_parameters items name' price' count' category') = items \<and>
   map_of (snd (query_item_by_parameters items name' price' count' category')) ''query'' =
     Some (Sel [(''name'', case name' of None \<Rightarrow> VNone | Some n \<Rightarrow> VStr n),
                (''price'', case price' of None \<Rightarrow> VNone | Some p \<Rightarrow> VFloat p),
                (''count'', case count' of None \<Rightarrow> VNone | Some c \<Rightarrow> VInt c),
                (''category'', case category' of None \<Rightarrow> VNone | Some g \<Rightarrow> VCat g)])"
  by (simp add: query_item_by_parameters_def opt_val_def)

subsection \<open>Adding an item\<close>

text \<open>
  C2. When the posted item's id is already a key, \<open>add_item\<close> raises nothing: it returns
  \<open>{"added": item}\<close>, the entry at that id now holds the posted item, and the keys are
  the same as before, in the same order.
\<close>

theorem add_item_existing_id:
  assumes "contains items (id' item)"
  shows "\<exists>items'. add_item items item = (items', Inr [(''added'', item)]) \<and>
           map_of items' = (map_of items)(id' item \<mapsto> item) \<and>
           keys items' = keys items"
  using assms by (simp add: add_item_def map_of_setitem keys_setitem)

theorem add_item_existing_id_witness:
  "contains initial_items (id' (nails\<lparr>id' := 1\<rparr>)) \<and>
   (\<exists>items'. add_item initial_items (nails\<lparr>id' := 1\<rparr>) =
                (items', Inr [(''added'', nails\<lparr>id' := 1\<rparr>)]) \<and>
              map_of items' = (map_of initial_items)(1 \<mapsto> nails\<lparr>id' := 1\<rparr>) \<and>
              keys items' = [0, 1, 2])"
proof -
  have h: "contains initial_items (id' (nails\<lparr>id' := 1\<rparr>))"
    by (simp add: contains_def keys_initial_items)
  show ?thesis
    using h keys_initial_items add_item_existing_id [OF h] by simp
qed

text \<open>
  C7. When the posted item's id is not yet a key, \<open>add_item\<close> stores the item under its
  id as the last key, changes no other entry and returns \<open>{"added": item}\<close>;
  \<open>query_item_by_id\<close> on the new dictionary then returns that item at that id.
\<close>

theorem add_item_fresh_id:
  assumes "\<not> contains items (id' item)"
  shows "\<exists>items'. add_item items item = (items', Inr [(''added'', item)]) \<and>
           map_of items' = (map_of items)(id' item \<mapsto> item) \<and>
           keys items' = keys items @ [id' item] \<and>
           query_item_by_id items' (id' item) = (items', Inr item)"
  using assms
  by (simp add: add_item_def map_of_setitem keys_setitem query_item_by_id_def getitem_def)

theorem add_item_fresh_id_witness:
  "\<not> contains initial_items (id' (nails\<lparr>id' := 3\<rparr>)) \<and>
   (\<exists>items'. add_item initial_items (nails\<lparr>id' := 3\<rparr>) =
                (items', Inr [(''added'', nails\<lparr>id' := 3\<rparr>)]) \<and>
              map_of items' = (map_of initial_items)(3 \<mapsto> nails\<lparr>id' := 3\<rparr>) \<and>
              keys items' = [0, 1, 2, 3] \<and>
              query_item_by_id items' 3 = (items', Inr (nails\<lparr>id' := 3\<rparr>)))"
proof -
  have h: "\<not> contains initial_items (id' (nails\<lparr>id' := 3\<rparr>))"
    by (simp add: contains_def keys_initial_items)
  show ?thesis
    using h keys_initial_items add_item_fresh_id [OF h] by simp
qed

subsection \<open>Looking an item up\<close>

text \<open>
  C9. At an id that is not a key, \<open>query_item_by_id\<close> returns no item and raises no
  \<open>HTTPException\<close>: the dictionary lookup fails with \<open>KeyError\<close>.
\<close>

theorem query_item_by_id_missing:
  assumes "\<not> contains items item_id"
  shows "query_item_by_id items item_id = (items, Inl (KeyError item_id))"
  using assms by (simp add: query_item_by_id_def getitem_missing)

theorem query_item_by_id_missing_witness:
  "\<not> contains initial_items 5 \<and>
   query_item_by_id initial_items 5 = (initial_items, Inl (KeyError 5))"
proof -
  have h: "\<not> contains initial_items 5"
    by (simp add: contains_def keys_initial_items)
  show ?thesis
    using h query_item_by_id_missing [OF h] by simp
qed

subsection \<open>Updating an item\<close>

text \<open>
  At an id that is not a key, with a field to update, \<open>update\<close> ends in the \<open>KeyError\<close>
  of \<open>items[item_id]\<close>: the 404 exception of its first \<open>if\<close> is built and dropped.
\<close>

lemma update_key_error:
  assumes "\<not> contains items item_id"
    and "name' \<noteq> None \<or> price' \<noteq> None \<or> count' \<noteq> None"
  shows "update items item_id name' price' count' = (items, Inl (KeyError item_id))"
  using assms by (auto simp: update_def getitem_missing)

text \<open>
  C3. The claim: at an id that is not a key, with one of \<open>name\<close>, \<open>price\<close>, \<open>count\<close>
  given, \<open>update\<close> fails with a 404. The request \<open>PUT /update/5?name=Saw\<close> meets the
  route's constraints, 5 is not a key of the initial dictionary, and the handler raises
  \<open>KeyError\<close>, not an \<open>HTTPException\<close> with status 404.
\<close>

theorem update_missing_id_raises_key_error:
  "update_constraints 5 (Some ''Saw'') None None \<and>
   \<not> contains initial_items 5 \<and>
   update initial_items 5 (Some ''Saw'') None None = (initial_items, Inl (KeyError 5))"
proof -
  have c: "update_constraints 5 (Some ''Saw'') None None"
    by (simp add: update_constraints_def)
  have h: "\<not> contains initial_items 5"
    by (simp add: contains_def keys_initial_items)
  have "map_of initial_items 5 = None"
    by (simp add: initial_items_def)
  then have u: "update initial_items 5 (Some ''Saw'') None None =
                  (initial_items, Inl (KeyError 5))"
    by (simp add: update_def getitem_def)
  from c h u show ?thesis by simp
qed

text \<open>
  C4. With none of \<open>name\<close>, \<open>price\<close>, \<open>count\<close> given, \<open>update\<close> raises an
  \<open>HTTPException\<close> with status 400, at every id, and the dictionary is as it was.
\<close>

theorem update_no_fields:
  "update items item_id None None None =
     (items, Inl (HTTPException 400 ''No parameters provide for update.''))"
  by (simp add: update_def)

text \<open>
  C5. At an id that is a key, with at least one of \<open>name\<close>, \<open>price\<close>, \<open>count\<close> given,
  \<open>update\<close> returns \<open>{"updated": item}\<close> for the item now stored at that id: each
  given field holds the given value, each field not given and the fields \<open>id\<close> and
  \<open>category\<close> hold what they held, and no other entry and no key has changed.
\<close>

theorem update_present:
  assumes "map_of items item_id = Some item"
    and "name' \<noteq> None \<or> price' \<noteq> None \<or> count' \<noteq> None"
  shows "\<exists>items' item'.
           update items item_id name' price' count' = (items', Inr [(''updated'', item')]) \<and>
           map_of items' = (map_of items)(item_id \<mapsto> item') \<and>
           keys items' = keys items \<and>
           name item' = (case name' of None \<Rightarrow> name item | Some n \<Rightarrow> n) \<and>
           price item' = (case price' of None \<Rightarrow> price item | Some p \<Rightarrow> p) \<and>
           count item' = (case count' of None \<Rightarrow> count item | Some c \<Rightarrow> c) \<and>
           id' item' = id' item \<and>
           category item' = category item"
proof -
  from assms(1) have c: "contains items item_id"
    by (simp add: contains_map_of)
  from assms(1) have g: "getitem items item_id = Inr item"
    by (rule getitem_present)
  from assms(2) have n: "\<not> (name' = None \<and> price' = None \<and> count' = None)"
    by blast
  show ?thesis
    using c g n
    by (simp add: update_def Let_def map_of_setitem keys_setitem split: option.split)
qed

theorem update_present_witness:
  "map_of initial_items 1 = Some pliers \<and>
   (\<exists>items' item'.
      update initial_items 1 (Some ''Wrench'') None (Some 7) =
        (items', Inr [(''updated'', item')]) \<and>
      map_of items' = (map_of initial_items)(1 \<mapsto> item') \<and>
      keys items' = [0, 1, 2] \<and>
      name item' = ''Wrench'' \<and> price item' = price_5_99 \<and> count item' = 7 \<and>
      id' item' = 1 \<and> category item' = TOOLS)"
proof -
  have h: "map_of initial_items 1 = Some pliers"
    by (simp add: initial_items_def)
  have n: "Some ''Wrench'' \<noteq> None \<or> (None :: pyfloat option) \<noteq> None \<or> Some (7 :: int) \<noteq> None"
    by simp
  show ?thesis
    using h keys_initial_items update_present [OF h n] by (simp add: pliers_def)
qed

subsection \<open>Deleting an item\<close>

text \<open>
  C6. At an id that is not a key, \<open>delete_item\<close> raises an \<open>HTTPException\<close> with status
  404 and the dictionary is as it was. At an id that is a key, it returns
  \<open>{"delete": item}\<close> for the item stored there, and the dictionary has lost that key
  and nothing else.
\<close>

theorem delete_item_spec:
  "(\<not> contains items item_id \<longrightarrow>
      delete_item items item_id =
        (items, Inl (HTTPException 404
                  (''Item with '' @ str_int item_id @ '' does not exist.'')))) \<and>
   (\<forall>item. map_of items item_id = Some item \<longrightarrow>
      (\<exists>items'. delete_item items item_id = (items', Inr [(''delete'', item)]) \<and>
                 map_of items' = (map_of items)(item_id := None) \<and>
                 keys items' = removeAll item_id (keys items)))"
  by (auto simp: delete_item_def contains_map_of pop_def delete_conv' keys_def delete_keys)

theorem delete_item_spec_witness:
  "\<not> contains initial_items 5 \<and>
   delete_item initial_items 5 =
     (initial_items, Inl (HTTPException 404 ''Item with 5 does not exist.'')) \<and>
   map_of initial_items 1 = Some pliers \<and>
   (\<exists>items'. delete_item initial_items 1 = (items', Inr [(''delete'', pliers)]) \<and>
              map_of items' = (map_of initial_items)(1 := None) \<and>
              keys items' = [0, 2])"
proof -
  have h5: "\<not> contains initial_items 5"
    by (simp add: contains_def keys_initial_items)
  have s5: "str_int 5 = ''5''"
    by code_simp
  have h1: "map_of initial_items 1 = Some pliers"
    by (simp add: initial_items_def)
  from delete_item_spec [of initial_items 5] h5 s5
  have a: "delete_item initial_items 5 =
             (initial_items, Inl (HTTPException 404 ''Item with 5 does not exist.''))"
    by simp
  from delete_item_spec [of initial_items 1] h1 keys_initial_items
  have b: "\<exists>items'. delete_item initial_items 1 = (items', Inr [(''delete'', pliers)]) \<and>
                    map_of items' = (map_of initial_items)(1 := None) \<and>
                    keys items' = [0, 2]"
    by simp
  from h5 a h1 b show ?thesis by blast
qed

subsection \<open>The ids of the stored items\<close>

lemma update_keeps_ids:
  assumes "ids_match_keys items"
  shows "ids_match_keys (fst (update items item_id name' price' count'))"
proof (cases "map_of items item_id")
  case None
  then show ?thesis
    using assms by (simp add: update_def getitem_def)
next
  case (Some item)
  then have "contains items item_id"
    by (simp add: contains_map_of)
  with assms Some have "id' item = item_id"
    by (auto simp: ids_match_keys_def contains_def)
  with assms Some show ?thesis
    by (auto simp: update_def getitem_def Let_def intro!: ids_match_keys_setitem
        split: option.split)
qed

lemma delete_item_keeps_ids:
  assumes "ids_match_keys items"
  shows "ids_match_keys (fst (delete_item items item_id))"
  using assms ids_match_keys_delete [OF assms, of item_id]
  by (auto simp: delete_item_def pop_def split: option.split)

text \<open>
  C8. In the initial dictionary every key holds an item whose \<open>id\<close> is that key, and
  each of the six handlers, started in a dictionary of which that is true, leaves one
  of which it is true.
\<close>

theorem ids_match_keys_invariant:
  "ids_match_keys initial_items \<and>
   (ids_match_keys items \<longrightarrow>
      ids_match_keys (fst (index items)) \<and>
      ids_match_keys (fst (query_item_by_id items item_id)) \<and>
      ids_match_keys (fst (query_item_by_parameters items name' price' count' category')) \<and>
      ids_match_keys (fst (add_item items item)) \<and>
      ids_match_keys (fst (update items item_id name' price' count')) \<and>
      ids_match_keys (fst (delete_item items item_id)))"
proof -
  have init: "ids_match_keys initial_items"
    by (simp add: ids_match_keys_def keys_def initial_items_def hammer_def pliers_def
        nails_def)
  show ?thesis
    using init update_keeps_ids delete_item_keeps_ids
    by (simp add: index_def query_item_by_id_def query_item_by_parameters_def add_item_def
        ids_match_keys_setitem)
qed

theorem ids_match_keys_invariant_witness:
  "ids_match_keys initial_items \<and>
   ids_match_keys (fst (index initial_items)) \<and>
   ids_match_keys (fst (query_item_by_id initial_items 1)) \<and>
   ids_match_keys (fst (query_item_by_parameters initial_items None None (Some 20) None)) \<and>
   ids_match_keys (fst (add_item initial_items (nails\<lparr>id' := 3\<rparr>))) \<and>
   ids_match_keys (fst (update initial_items 1 (Some ''Wrench'') None (Some 7))) \<and>
   ids_match_keys (fst (delete_item initial_items 1))"
  using ids_match_keys_invariant
    [of initial_items 1 None None "Some 20" None "nails\<lparr>id' := 3\<rparr>"]
    ids_match_keys_invariant
    [of initial_items 1 "Some ''Wrench''" None "Some 7" None "nails\<lparr>id' := 3\<rparr>"]
  by simp

end
